theory Spec2Isabelle
  imports Main "HOL-Library.Word"
begin

section \<open>The packed attestation statement verifier (attestation/packed/packed.go)\<close>

text \<open>
  A shallow embedding of \<^verbatim>\<open>verifyPacked\<close>, \<^verbatim>\<open>verifyBasic\<close>, \<^verbatim>\<open>verifyECDAA\<close> and
  \<^verbatim>\<open>verifySelf\<close>. A Go \<^verbatim>\<open>error\<close> result is the value \<open>outcome\<close>: \<open>Success\<close> for
  \<^verbatim>\<open>return nil\<close>, \<open>Failure e\<close> for a returned error, \<open>Panic\<close> for a run-time panic.
  Every function also returns the list of calls it made into the Go standard library,
  in order, so that what is computed before a return is part of the model.
\<close>

subsection \<open>Go values\<close>

type_synonym byte = "8 word"

text \<open>
  The dynamic values an \<^verbatim>\<open>interface{}\<close> of the statement map holds. \<open>GoNil\<close> is the nil
  interface, \<open>GoSlice\<close> is \<^verbatim>\<open>[]interface{}\<close>, \<open>GoBytes\<close> is \<^verbatim>\<open>[]byte\<close>.
\<close>

datatype go_value =
    GoNil
  | GoBool bool
  | GoInt64 "64 word"
  | GoUint64 "64 word"
  | GoBytes "byte list"
  | GoString string
  | GoSlice "go_value list"

text \<open>What the verb \<^verbatim>\<open>%T\<close> of package fmt prints for a value.\<close>

fun go_type_name :: "go_value \<Rightarrow> string" where
  "go_type_name GoNil = ''<nil>''"
| "go_type_name (GoBool _) = ''bool''"
| "go_type_name (GoInt64 _) = ''int64''"
| "go_type_name (GoUint64 _) = ''uint64''"
| "go_type_name (GoBytes _) = ''[]uint8''"
| "go_type_name (GoString _) = ''string''"
| "go_type_name (GoSlice _) = ''[]interface {}''"

subsection \<open>Package protocol: attestation data and errors\<close>

type_synonym COSEAlgorithmIdentifier = "64 word"

definition ES256 :: COSEAlgorithmIdentifier where
  "ES256 = - 7"

datatype Curve = P224 | P256 | P384 | P521

fun curve_Name :: "Curve \<Rightarrow> string" where
  "curve_Name P224 = ''P-224''"
| "curve_Name P256 = ''P-256''"
| "curve_Name P384 = ''P-384''"
| "curve_Name P521 = ''P-521''"

text \<open>
  The field \<^verbatim>\<open>Curve\<close> of an \<^verbatim>\<open>ecdsa.PublicKey\<close> is an interface: \<open>None\<close> is the nil
  interface.
\<close>

record ecdsa_PublicKey =
  Curve :: "Curve option"
  X :: int
  Y :: int

text \<open>
  The credential public key is an \<^verbatim>\<open>interface{}\<close>: a pointer to an \<^verbatim>\<open>ecdsa.PublicKey\<close>
  (\<open>Nil_ECDSA_PublicKey\<close> is the nil pointer of that type, which the type switch of
  \<^verbatim>\<open>verifySelf\<close> matches as well), or a value of another type, kept by the name \<^verbatim>\<open>%T\<close>
  prints for it (\<^verbatim>\<open><nil>\<close> for the nil interface).
\<close>

datatype COSEKey_value =
    ECDSA_PublicKey ecdsa_PublicKey
  | Nil_ECDSA_PublicKey
  | OtherKey string

record AttestedCredentialData =
  AAGUID :: "byte list"
  COSEKey :: COSEKey_value

record AuthenticatorData =
  Raw :: "byte list"
  AttestedCredentialData :: AttestedCredentialData

record Attestation =
  AuthData :: AuthenticatorData
  AttStmt :: "string \<rightharpoonup> go_value"

text \<open>
  Modelled from the spec: the type \<^verbatim>\<open>protocol.Error\<close>, its value
  \<^verbatim>\<open>protocol.ErrInvalidAttestation\<close> and its methods \<^verbatim>\<open>WithDebug\<close>, \<^verbatim>\<open>WithDebugf\<close> and
  \<^verbatim>\<open>WithCause\<close> are declared in package protocol, which is not among the sources. The
  spec (section 7) has every failure "returned to the immediate caller as a typed
  result carrying a human-readable debug detail and, where applicable, the underlying
  decode/crypto error as a chained cause": an error is its name, the debug text and
  the cause. \<^verbatim>\<open>WithDebugf\<close> is \<open>WithDebug\<close> of the formatted text.
\<close>

record Error =
  err_name :: string
  err_debug :: string
  err_cause :: "string option"

definition ErrInvalidAttestation :: Error where
  "ErrInvalidAttestation =
     \<lparr>err_name = ''ErrInvalidAttestation'', err_debug = [], err_cause = None\<rparr>"

definition WithDebug :: "Error \<Rightarrow> string \<Rightarrow> Error" where
  "WithDebug e d = e\<lparr>err_debug := d\<rparr>"

definition WithCause :: "Error \<Rightarrow> string \<Rightarrow> Error" where
  "WithCause e c = e\<lparr>err_cause := Some c\<rparr>"

datatype outcome = Success | Failure Error | Panic string

subsection \<open>The Go standard library, as far as packed.go calls it\<close>

datatype SignatureAlgorithm =
    UnknownSignatureAlgorithm
  | MD2WithRSA | MD5WithRSA | SHA1WithRSA | SHA256WithRSA | SHA384WithRSA | SHA512WithRSA
  | DSAWithSHA1 | DSAWithSHA256
  | ECDSAWithSHA1 | ECDSAWithSHA256 | ECDSAWithSHA384 | ECDSAWithSHA512
  | SHA256WithRSAPSS | SHA384WithRSAPSS | SHA512WithRSAPSS
  | PureEd25519

record Extension =
  Id :: "int list"
  Critical :: bool
  Value :: "byte list"

text \<open>The fields of \<^verbatim>\<open>x509.Certificate\<close> that the verifier reads or verifies against.\<close>

record Certificate =
  Version :: int
  IsCA :: bool
  SignatureAlgorithm :: SignatureAlgorithm
  PublicKey :: "byte list"
  Extensions :: "Extension list"

text \<open>
  The parsers and the cryptography are not code of this repository: they are a
  parameter of the model, and every theorem below that does not name a particular
  library holds for all of them. An error of the library is its message.
  \<^item> \<open>x509_ParseCertificate\<close>: \<^verbatim>\<open>x509.ParseCertificate\<close>;
  \<^item> \<open>x509_CheckSignature\<close>: \<^verbatim>\<open>(*x509.Certificate).CheckSignature\<close>, \<open>None\<close> for a nil error;
  \<^item> \<open>asn1_parse_bytes\<close>, \<open>asn1_parse_bigints\<close>: the DER parser behind \<^verbatim>\<open>asn1.Unmarshal\<close>
    for a recipient of type \<^verbatim>\<open>[]byte\<close> and \<^verbatim>\<open>[]*big.Int\<close>: the value and the bytes
    left after it;
  \<^item> \<open>sha256_Sum256\<close>: \<^verbatim>\<open>sha256.Sum256\<close>; \<open>ecdsa_Verify\<close>: \<^verbatim>\<open>ecdsa.Verify\<close>.
\<close>

record stdlib =
  x509_ParseCertificate :: "byte list \<Rightarrow> string + Certificate"
  x509_CheckSignature ::
    "Certificate \<Rightarrow> SignatureAlgorithm \<Rightarrow> byte list \<Rightarrow> byte list \<Rightarrow> string option"
  asn1_parse_bytes :: "byte list \<Rightarrow> string + (byte list \<times> byte list)"
  asn1_parse_bigints :: "byte list \<Rightarrow> string + (int list \<times> byte list)"
  sha256_Sum256 :: "byte list \<Rightarrow> byte list"
  ecdsa_Verify :: "ecdsa_PublicKey \<Rightarrow> byte list \<Rightarrow> int \<Rightarrow> int \<Rightarrow> bool"

text \<open>
  \<^verbatim>\<open>asn1.Unmarshal(b, val)\<close> returns \<^verbatim>\<open>(rest, err)\<close> and stores the parsed value through
  \<^verbatim>\<open>val\<close>. Its documentation: "If val is nil or not a pointer, Unmarshal returns an
  error"; the error's text is "asn1: Unmarshal recipient value is non-pointer" and
  the type. The result here is \<open>(rest, stored, err)\<close>: \<open>rest\<close> is \<open>None\<close> for a nil slice
  (returned with every error) and \<open>Some\<close> of the bytes left after a successful parse
  (the slice \<^verbatim>\<open>b[offset:]\<close>, which is not nil even when it is empty); \<open>stored\<close> is the
  value written through the pointer.
\<close>

datatype recipient = Pointer | Non_Pointer

definition asn1_Unmarshal ::
  "(byte list \<Rightarrow> string + ('v \<times> byte list)) \<Rightarrow> byte list \<Rightarrow> recipient \<Rightarrow> string
     \<Rightarrow> byte list option \<times> 'v option \<times> string option" where
  "asn1_Unmarshal parseField b val type_name =
     (case val of
        Non_Pointer \<Rightarrow>
          (None, None, Some (''asn1: Unmarshal recipient value is non-pointer '' @ type_name))
      | Pointer \<Rightarrow>
          (case parseField b of
             Inl err \<Rightarrow> (None, None, Some err)
           | Inr (v, rest) \<Rightarrow> (Some rest, Some v, None)))"

text \<open>The calls into the standard library, with their arguments.\<close>

datatype lib_call =
    Call_ParseCertificate "byte list"
  | Call_CheckSignature Certificate SignatureAlgorithm "byte list" "byte list"
  | Call_Unmarshal "byte list" recipient string
  | Call_Sum256 "byte list"
  | Call_Verify ecdsa_PublicKey "byte list" int int

subsection \<open>packed.go\<close>

definition extensionIDFIDOGenCAAAGUID :: "int list" where
  "extensionIDFIDOGenCAAAGUID = [1, 3, 6, 1, 4, 1, 45724, 1, 1, 4]"

text \<open>
  The loop over \<^verbatim>\<open>cert.Extensions\<close> of \<^verbatim>\<open>verifyBasic\<close> (lines 100 to 111), with the
  variable \<^verbatim>\<open>aaguidValue\<close> as an accumulator: \<open>Inl\<close> is the debug text of the error
  returned from inside the loop, \<open>Inr\<close> the value of \<^verbatim>\<open>aaguidValue\<close> after it.
\<close>

fun scanExtensions :: "Extension list \<Rightarrow> byte list \<Rightarrow> string + byte list" where
  "scanExtensions [] aaguidValue = Inr aaguidValue"
| "scanExtensions (ext # exts) aaguidValue =
     (if Id ext = extensionIDFIDOGenCAAAGUID then
        (if Critical ext then
           Inl ''extension id-fido-gen-ce-aaguid is present, but is marked as critical''
         else scanExtensions exts (Value ext))
      else scanExtensions exts aaguidValue)"

text \<open>
  \<^verbatim>\<open>verifyBasic\<close>. The type assertion on \<^verbatim>\<open>a.AttStmt["x5c"]\<close> fails for a missing key
  (the nil interface) and for every value that is not a \<^verbatim>\<open>[]interface{}\<close>;
  \<^verbatim>\<open>x5c[0]\<close> on an empty slice is a run-time panic.
\<close>

definition verifyBasic ::
  "stdlib \<Rightarrow> Attestation \<Rightarrow> byte list \<Rightarrow> COSEAlgorithmIdentifier \<Rightarrow> byte list
     \<Rightarrow> lib_call list \<times> outcome" where
  "verifyBasic L a clientDataHash alg sig =
     (case AttStmt a ''x5c'' of
        Some (GoSlice x5c) \<Rightarrow>
          (case x5c of
             [] \<Rightarrow> ([], Panic ''runtime error: index out of range [0] with length 0'')
           | GoBytes attestnCert # _ \<Rightarrow>
               (case x509_ParseCertificate L attestnCert of
                  Inl err \<Rightarrow>
                    ([Call_ParseCertificate attestnCert],
                     Failure (WithDebug ErrInvalidAttestation (''invalid x5c for packed: '' @ err)))
                | Inr cert \<Rightarrow>
                    (let signedBytes = Raw (AuthData a) @ clientDataHash;
                         t1 = [Call_ParseCertificate attestnCert,
                               Call_CheckSignature cert (SignatureAlgorithm cert) signedBytes sig];
                         (t2, err) =
                           (case x509_CheckSignature L cert (SignatureAlgorithm cert) signedBytes sig of
                              None \<Rightarrow> (t1, None)
                            | Some _ \<Rightarrow>
                                (t1 @ [Call_CheckSignature cert ECDSAWithSHA256 signedBytes sig],
                                 x509_CheckSignature L cert ECDSAWithSHA256 signedBytes sig))
                     in case err of
                          Some err \<Rightarrow>
                            (t2, Failure (WithDebug ErrInvalidAttestation
                                   (''invalid signature for packed: '' @ err)))
                        | None \<Rightarrow>
                            if Version cert \<noteq> 3 then
                              (t2, Failure (WithDebug ErrInvalidAttestation
                                     ''invalid version for certificate''))
                            else if IsCA cert then
                              (t2, Failure (WithDebug ErrInvalidAttestation
                                     ''CA is set for certificate''))
                            else
                              (case scanExtensions (Extensions cert) [] of
                                 Inl msg \<Rightarrow> (t2, Failure (WithDebug ErrInvalidAttestation msg))
                               | Inr aaguidValue \<Rightarrow>
                                   if length aaguidValue > 0 then
                                     (let t3 = t2 @ [Call_Unmarshal aaguidValue Pointer ''*[]uint8'']
                                      in case asn1_Unmarshal (asn1_parse_bytes L) aaguidValue
                                                Pointer ''*[]uint8'' of
                                           (_, _, Some err) \<Rightarrow>
                                             (t3, Failure (WithDebug ErrInvalidAttestation
                                                    (''invalid AAGUID: '' @ err)))
                                         | (_, stored, None) \<Rightarrow>
                                             (let aaguid = (case stored of Some v \<Rightarrow> v | None \<Rightarrow> [])
                                              in if AAGUID (AttestedCredentialData (AuthData a)) \<noteq> aaguid
                                                 then (t3, Failure (WithDebug ErrInvalidAttestation
                                                             ''invalid AAGUID''))
                                                 else (t3, Success)))
                                   else (t2, Success))))
           | _ # _ \<Rightarrow> ([], Failure (WithDebug ErrInvalidAttestation ''invalid x5c for packed'')))
      | _ \<Rightarrow> ([], Failure (WithDebug ErrInvalidAttestation ''invalid x5c for packed'')))"

definition verifyECDAA ::
  "stdlib \<Rightarrow> Attestation \<Rightarrow> byte list \<Rightarrow> COSEAlgorithmIdentifier \<Rightarrow> byte list
     \<Rightarrow> lib_call list \<times> outcome" where
  "verifyECDAA L a clientDataHash alg sig =
     ([], Failure (WithDebug ErrInvalidAttestation ''unsupported packed format ECDAA''))"

text \<open>
  \<^verbatim>\<open>verifySelf\<close>. Line 153 passes the slice \<^verbatim>\<open>signature\<close> itself to \<^verbatim>\<open>asn1.Unmarshal\<close>, not
  a pointer to it: the recipient is \<open>Non_Pointer\<close>. Line 155 compares \<^verbatim>\<open>rest\<close> with nil.
  After a nil error and a nil \<^verbatim>\<open>rest\<close> the two elements of \<^verbatim>\<open>signature\<close> are read: they are
  the stored integers, and a run-time panic when there are none (nil pointers, or fewer
  than two elements). A nil \<^verbatim>\<open>*ecdsa.PublicKey\<close> panics where \<^verbatim>\<open>v.Curve\<close> is read (in the
  condition of line 147, or in the argument of line 148 when \<^verbatim>\<open>alg\<close> is not ES256); a
  nil \<^verbatim>\<open>Curve\<close> differs from \<^verbatim>\<open>elliptic.P256()\<close> and panics at \<^verbatim>\<open>v.Curve.Params()\<close> in
  line 148.
\<close>

definition verifySelf ::
  "stdlib \<Rightarrow> Attestation \<Rightarrow> byte list \<Rightarrow> COSEAlgorithmIdentifier \<Rightarrow> byte list
     \<Rightarrow> lib_call list \<times> outcome" where
  "verifySelf L a clientDataHash alg sig =
     (let signedBytes = Raw (AuthData a) @ clientDataHash
      in case COSEKey (AttestedCredentialData (AuthData a)) of
           ECDSA_PublicKey v \<Rightarrow>
             if alg \<noteq> ES256 \<or> Curve v \<noteq> Some P256 then
               (case Curve v of
                  None \<Rightarrow>
                    ([], Panic ''runtime error: invalid memory address or nil pointer dereference'')
                | Some curve \<Rightarrow>
                    ([], Failure (WithDebug ErrInvalidAttestation
                           (''unsupported packed self attestation ECDSA key curve '' @
                            curve_Name curve))))
             else
               (let t1 = [Call_Unmarshal sig Non_Pointer ''[]*big.Int'']
                in case asn1_Unmarshal (asn1_parse_bigints L) sig Non_Pointer ''[]*big.Int'' of
                     (_, _, Some err) \<Rightarrow>
                       (t1, Failure (WithCause (WithDebug ErrInvalidAttestation
                              (''invalid ECDSA signature: '' @ err)) err))
                   | (Some rest, _, None) \<Rightarrow>
                       (t1, Failure (WithDebug ErrInvalidAttestation
                              ''invalid ECDSA signature: too much data''))
                   | (None, stored, None) \<Rightarrow>
                       (let hash = sha256_Sum256 L signedBytes;
                            t2 = t1 @ [Call_Sum256 signedBytes]
                        in case stored of
                             Some (r # s # _) \<Rightarrow>
                               if \<not> ecdsa_Verify L v hash r s then
                                 (t2 @ [Call_Verify v hash r s],
                                  Failure (WithDebug ErrInvalidAttestation ''invalid signature for packed''))
                               else (t2 @ [Call_Verify v hash r s], Success)
                           | _ \<Rightarrow> (t2, Panic ''runtime error: invalid memory address or nil pointer dereference'')))
         | Nil_ECDSA_PublicKey \<Rightarrow>
             ([], Panic ''runtime error: invalid memory address or nil pointer dereference'')
         | OtherKey type_name \<Rightarrow>
             ([], Failure (WithDebug ErrInvalidAttestation
                    (''unsupported packed self attestation public key type '' @ type_name))))"

text \<open>
  \<^verbatim>\<open>verifyPacked\<close>. A map lookup is \<open>None\<close> for a missing key; the type assertions
  \<^verbatim>\<open>rawAlg.(int64)\<close> and \<^verbatim>\<open>rawSig.([]byte)\<close> hold for \<open>GoInt64\<close> and \<open>GoBytes\<close> only.
\<close>

definition verifyPacked :: "stdlib \<Rightarrow> Attestation \<Rightarrow> byte list \<Rightarrow> lib_call list \<times> outcome" where
  "verifyPacked L a clientDataHash =
     (case AttStmt a ''alg'' of
        None \<Rightarrow> ([], Failure (WithDebug ErrInvalidAttestation ''missing alg for packed''))
      | Some rawAlg \<Rightarrow>
          (case rawAlg of
             GoInt64 algInt \<Rightarrow>
               (let alg = algInt
                in case AttStmt a ''sig'' of
                     None \<Rightarrow> ([], Failure (WithDebug ErrInvalidAttestation ''missing sig for packed''))
                   | Some rawSig \<Rightarrow>
                       (case rawSig of
                          GoBytes sig \<Rightarrow>
                            if AttStmt a ''x5c'' \<noteq> None then verifyBasic L a clientDataHash alg sig
                            else if AttStmt a ''ecdaaKeyId'' \<noteq> None then
                              verifyECDAA L a clientDataHash alg sig
                            else verifySelf L a clientDataHash alg sig
                        | _ \<Rightarrow> ([], Failure (WithDebug ErrInvalidAttestation ''invalid sig for packed''))))
           | _ \<Rightarrow>
               ([], Failure (WithDebug ErrInvalidAttestation
                      (''invalid alg for packed, is of invalid type '' @ go_type_name rawAlg)))))"

subsection \<open>Observations on the calls\<close>

text \<open>The signature checks against the leaf certificate among the calls made.\<close>

fun is_CheckSignature :: "lib_call \<Rightarrow> bool" where
  "is_CheckSignature (Call_CheckSignature _ _ _ _) = True"
| "is_CheckSignature _ = False"

subsection \<open>A small library and inputs for evaluation\<close>

text \<open>
  One instance of the library, for running the verifier on concrete statements. Its
  certificate parser knows the single encoding \<open>[0x30]\<close>, which it parses to the
  certificate it is given. Its signature check accepts the signature \<open>[1]\<close> under every
  algorithm and the signature \<open>[2]\<close> under ECDSA with SHA-256 only. Its byte-string parser
  reads a DER OCTET STRING with a short-form length. Its ECDSA verification accepts
  the pair \<open>(1, 1)\<close>, and its parser of integer sequences reads the DER encoding
  \<open>30 06 02 01 01 02 01 01\<close> of that pair.
\<close>

fun der_octet_string :: "byte list \<Rightarrow> string + (byte list \<times> byte list)" where
  "der_octet_string (tag # len # content) =
     (if tag = 0x04 \<and> len < 0x80 \<and> unat len \<le> length content
      then Inr (take (unat len) content, drop (unat len) content)
      else Inl ''asn1: structure error: tags don't match'')"
| "der_octet_string _ = Inl ''asn1: syntax error: truncated tag or length''"

definition example_lib :: "Certificate \<Rightarrow> stdlib" where
  "example_lib cert =
     \<lparr>x509_ParseCertificate =
        (\<lambda>der. if der = [0x30] then Inr cert else Inl ''x509: malformed certificate''),
      x509_CheckSignature =
        (\<lambda>c algo signed sig.
           if sig = [1] \<or> (sig = [2] \<and> algo = ECDSAWithSHA256) then None
           else Some ''x509: verification error''),
      asn1_parse_bytes = der_octet_string,
      asn1_parse_bigints =
        (\<lambda>b. if b = [0x30, 0x06, 0x02, 0x01, 0x01, 0x02, 0x01, 0x01] then Inr ([1, 1], [])
             else Inl ''asn1: structure error: tags don't match''),
      sha256_Sum256 = (\<lambda>b. b),
      ecdsa_Verify = (\<lambda>pub hash r s. r = 1 \<and> s = 1)\<rparr>"

definition example_aaguid :: "byte list" where
  "example_aaguid = [1, 2, 3, 4, 5, 6, 7, 8, 9, 10, 11, 12, 13, 14, 15, 16]"

text \<open>
  A version 3 certificate that declares SHA-256 with RSA, with the CA flag and the
  extensions given.
\<close>

definition example_cert :: "bool \<Rightarrow> Extension list \<Rightarrow> Certificate" where
  "example_cert ca exts =
     \<lparr>Version = 3, IsCA = ca, SignatureAlgorithm = SHA256WithRSA, PublicKey = [4],
      Extensions = exts\<rparr>"

text \<open>The device-model extension with the value and the critical flag given.\<close>

definition aaguid_extension :: "bool \<Rightarrow> byte list \<Rightarrow> Extension" where
  "aaguid_extension critical v =
     \<lparr>Id = extensionIDFIDOGenCAAAGUID, Critical = critical, Value = v\<rparr>"

text \<open>
  An attestation with the statement map given, two bytes of authenticator data, the
  AAGUID \<open>example_aaguid\<close> and a P-256 credential key.
\<close>

definition example_attestation :: "(string \<rightharpoonup> go_value) \<Rightarrow> Attestation" where
  "example_attestation stmt =
     \<lparr>AuthData =
        \<lparr>Raw = [0x49, 0x96],
         AttestedCredentialData =
           \<lparr>AAGUID = example_aaguid,
            COSEKey = ECDSA_PublicKey \<lparr>Curve = Some P256, X = 1, Y = 2\<rparr>\<rparr>\<rparr>,
      AttStmt = stmt\<rparr>"

text \<open>The statement of a basic attestation: \<open>alg\<close>, \<open>sig\<close> and a chain of one certificate.\<close>

definition basic_stmt :: "byte list \<Rightarrow> string \<rightharpoonup> go_value" where
  "basic_stmt sig =
     [''alg'' \<mapsto> GoInt64 (- 7), ''sig'' \<mapsto> GoBytes sig, ''x5c'' \<mapsto> GoSlice [GoBytes [0x30]]]"

text \<open>The statement of a self attestation: \<open>alg\<close> and \<open>sig\<close> only.\<close>

definition self_stmt :: "byte list \<Rightarrow> string \<rightharpoonup> go_value" where
  "self_stmt sig = [''alg'' \<mapsto> GoInt64 (- 7), ''sig'' \<mapsto> GoBytes sig]"

section \<open>Properties\<close>

subsection \<open>Auxiliary facts\<close>

lemma WithDebug_eq_iff:
  "WithDebug ErrInvalidAttestation d = WithDebug ErrInvalidAttestation d' \<longleftrightarrow> d = d'"
  by (simp add: WithDebug_def ErrInvalidAttestation_def)

lemma scanExtensions_Inl:
  "scanExtensions exts acc = Inl msg \<Longrightarrow>
     msg = ''extension id-fido-gen-ce-aaguid is present, but is marked as critical''"
  by (induction exts arbitrary: acc) (auto split: if_splits)

text \<open>
  When no device-model extension is critical, the loop leaves in \<^verbatim>\<open>aaguidValue\<close> the
  value of the last device-model extension, or its initial value when there is none.
\<close>

lemma scanExtensions_Inr:
  "\<forall>e \<in> set exts. Id e = extensionIDFIDOGenCAAAGUID \<longrightarrow> \<not> Critical e \<Longrightarrow>
   scanExtensions exts acc =
     Inr (if filter (\<lambda>e. Id e = extensionIDFIDOGenCAAAGUID) exts = [] then acc
          else Value (last (filter (\<lambda>e. Id e = extensionIDFIDOGenCAAAGUID) exts)))"
  by (induction exts arbitrary: acc) auto

text \<open>A critical device-model extension anywhere in the list ends the loop with the error.\<close>

lemma scanExtensions_critical:
  "\<exists>e \<in> set exts. Id e = extensionIDFIDOGenCAAAGUID \<and> Critical e \<Longrightarrow>
   scanExtensions exts acc =
     Inl ''extension id-fido-gen-ce-aaguid is present, but is marked as critical''"
  by (induction exts arbitrary: acc) auto

text \<open>A successful \<^verbatim>\<open>asn1.Unmarshal\<close> never returns a nil \<^verbatim>\<open>rest\<close>.\<close>

lemma asn1_Unmarshal_rest:
  "asn1_Unmarshal parseField b val type_name = (rest, stored, None) \<Longrightarrow> rest \<noteq> None"
  by (auto simp: asn1_Unmarshal_def split: recipient.splits sum.splits)

lemmas example_defs =
  example_lib_def example_cert_def example_attestation_def basic_stmt_def self_stmt_def
  example_aaguid_def aaguid_extension_def extensionIDFIDOGenCAAAGUID_def

lemmas verify_defs =
  verifyPacked_def verifyBasic_def verifySelf_def verifyECDAA_def asn1_Unmarshal_def
  ES256_def Let_def

subsection \<open>The dispatcher\<close>

text \<open>
  C5. A statement whose \<open>alg\<close> is missing or is not an \<^verbatim>\<open>int64\<close>, or whose \<open>sig\<close> is missing
  or is not a \<^verbatim>\<open>[]byte\<close>, fails with one of the four missing-field and wrong-type
  errors, and no call into the library (certificate parsing, signature check, DER
  parsing, hashing, ECDSA) is made: the list of calls is empty.
\<close>

theorem alg_sig_required_before_crypto:
  assumes "(\<forall>algInt. AttStmt a ''alg'' \<noteq> Some (GoInt64 algInt)) \<or>
           (\<forall>sig. AttStmt a ''sig'' \<noteq> Some (GoBytes sig))"
  shows "\<exists>d. verifyPacked L a clientDataHash = ([], Failure (WithDebug ErrInvalidAttestation d)) \<and>
           (d = ''missing alg for packed'' \<or>
            (\<exists>rawAlg. AttStmt a ''alg'' = Some rawAlg \<and>
               d = ''invalid alg for packed, is of invalid type '' @ go_type_name rawAlg) \<or>
            d = ''missing sig for packed'' \<or>
            d = ''invalid sig for packed'')"
  using assms
  by (auto simp: verifyPacked_def split: option.splits go_value.splits)

text \<open>
  At a statement whose \<open>alg\<close> is a text string and that carries a certificate chain,
  the wrong-type error is returned and nothing is called.
\<close>

theorem alg_sig_required_before_crypto_witness:
  "verifyPacked (example_lib (example_cert False []))
     (example_attestation ((basic_stmt [1])(''alg'' \<mapsto> GoString ''ES256''))) [0xAA] =
   ([], Failure (WithDebug ErrInvalidAttestation
          ''invalid alg for packed, is of invalid type string''))"
  using alg_sig_required_before_crypto
    [of "example_attestation ((basic_stmt [1])(''alg'' \<mapsto> GoString ''ES256''))"
        "example_lib (example_cert False [])" "[0xAA]"]
  by (simp add: example_attestation_def basic_stmt_def verifyPacked_def)

text \<open>
  C4, as amended. A statement with an \<^verbatim>\<open>int64\<close> \<open>alg\<close> and a \<^verbatim>\<open>[]byte\<close> \<open>sig\<close>, without
  \<open>x5c\<close> and with \<open>ecdaaKeyId\<close> fails with the unsupported-format error, whatever the
  signature, the key id and the other fields are, and nothing is called.
\<close>

theorem ecdaaKeyId_without_x5c_unsupported:
  assumes "AttStmt a ''alg'' = Some (GoInt64 alg)" "AttStmt a ''sig'' = Some (GoBytes sig)"
    "AttStmt a ''x5c'' = None" "AttStmt a ''ecdaaKeyId'' = Some keyId"
  shows "verifyPacked L a clientDataHash =
           ([], Failure (WithDebug ErrInvalidAttestation ''unsupported packed format ECDAA''))"
  using assms by (simp add: verifyPacked_def verifyECDAA_def)

theorem ecdaaKeyId_without_x5c_unsupported_witness:
  "verifyPacked (example_lib (example_cert False []))
     (example_attestation ((self_stmt [1])(''ecdaaKeyId'' \<mapsto> GoBytes [7]))) [0xAA] =
   ([], Failure (WithDebug ErrInvalidAttestation ''unsupported packed format ECDAA''))"
  using ecdaaKeyId_without_x5c_unsupported
    [of "example_attestation ((self_stmt [1])(''ecdaaKeyId'' \<mapsto> GoBytes [7]))" "- 7" "[1]"
        "GoBytes [7]" "example_lib (example_cert False [])" "[0xAA]"]
  by (simp add: example_attestation_def self_stmt_def)

text \<open>
  The claim as stated fails: a statement that contains \<open>ecdaaKeyId\<close> and also \<open>x5c\<close>
  takes the basic path, and with an accepted signature and a conforming leaf
  certificate it succeeds.
\<close>

theorem ecdaaKeyId_with_x5c_counterexample:
  "AttStmt (example_attestation ((basic_stmt [1])(''ecdaaKeyId'' \<mapsto> GoBytes [7]))) ''ecdaaKeyId''
     = Some (GoBytes [7]) \<and>
   snd (verifyPacked (example_lib (example_cert False []))
          (example_attestation ((basic_stmt [1])(''ecdaaKeyId'' \<mapsto> GoBytes [7]))) [0xAA]) = Success"
  by (simp add: example_defs verify_defs)

text \<open>
  C2. The claim is that no input makes the verifier panic. The code does: a statement
  whose \<open>x5c\<close> is an empty sequence reaches \<^verbatim>\<open>x5c[0]\<close> (line 64), whatever the library,
  the authenticator data and the hash are.
\<close>

theorem verifyPacked_empty_x5c_panics:
  "verifyPacked L
     (a\<lparr>AttStmt := [''alg'' \<mapsto> GoInt64 (- 7), ''sig'' \<mapsto> GoBytes [], ''x5c'' \<mapsto> GoSlice []]\<rparr>)
     clientDataHash =
   ([], Panic ''runtime error: index out of range [0] with length 0'')"
  by (simp add: verifyPacked_def verifyBasic_def)

subsection \<open>The basic path\<close>

text \<open>
  C7. On the basic path, once the leaf certificate is parsed, the signature is checked
  over \<^verbatim>\<open>a.AuthData.Raw\<close> followed by \<^verbatim>\<open>clientDataHash\<close> with the algorithm the certificate
  declares. When that check passes it is the only signature check made; when it fails,
  exactly one more is made, with ECDSA with SHA-256 over the same bytes. The
  invalid-signature error is returned if and only if both checks fail.
\<close>

theorem signature_fallback_once:
  assumes "AttStmt a ''alg'' = Some (GoInt64 alg)" "AttStmt a ''sig'' = Some (GoBytes sig)"
    "AttStmt a ''x5c'' = Some (GoSlice (GoBytes der # chain))"
    "x509_ParseCertificate L der = Inr cert"
  shows "filter is_CheckSignature (fst (verifyPacked L a h)) =
           (if x509_CheckSignature L cert (SignatureAlgorithm cert) (Raw (AuthData a) @ h) sig = None
            then [Call_CheckSignature cert (SignatureAlgorithm cert) (Raw (AuthData a) @ h) sig]
            else [Call_CheckSignature cert (SignatureAlgorithm cert) (Raw (AuthData a) @ h) sig,
                  Call_CheckSignature cert ECDSAWithSHA256 (Raw (AuthData a) @ h) sig])
         \<and> ((\<exists>err. snd (verifyPacked L a h) =
                 Failure (WithDebug ErrInvalidAttestation (''invalid signature for packed: '' @ err)))
              \<longleftrightarrow> x509_CheckSignature L cert (SignatureAlgorithm cert) (Raw (AuthData a) @ h) sig \<noteq> None
                \<and> x509_CheckSignature L cert ECDSAWithSHA256 (Raw (AuthData a) @ h) sig \<noteq> None)"
proof -
  have eq: "verifyPacked L a h = verifyBasic L a h alg sig"
    using assms by (simp add: verifyPacked_def)
  show ?thesis
    unfolding eq using assms(3,4)
    by (auto simp: verifyBasic_def Let_def asn1_Unmarshal_def WithDebug_eq_iff
        split: option.splits sum.splits if_splits prod.splits dest!: scanExtensions_Inl)
qed

text \<open>
  At the signature \<open>[2]\<close>, which the example library accepts under ECDSA with SHA-256
  only, and a leaf that declares SHA-256 with RSA: two checks, and success.
\<close>

theorem signature_fallback_once_witness:
  "filter is_CheckSignature
     (fst (verifyPacked (example_lib (example_cert False []))
             (example_attestation (basic_stmt [2])) [0xAA])) =
     [Call_CheckSignature (example_cert False []) SHA256WithRSA [0x49, 0x96, 0xAA] [2],
      Call_CheckSignature (example_cert False []) ECDSAWithSHA256 [0x49, 0x96, 0xAA] [2]] \<and>
   snd (verifyPacked (example_lib (example_cert False []))
          (example_attestation (basic_stmt [2])) [0xAA]) = Success"
  using signature_fallback_once
    [of "example_attestation (basic_stmt [2])" "- 7" "[2]" "[0x30]" "[]"
        "example_lib (example_cert False [])" "example_cert False []" "[0xAA]"]
  by (simp add: example_defs verify_defs)

text \<open>
  C3, as amended. On the basic path, a leaf certificate with the CA flag set always
  makes verification fail. When one of the two signature checks succeeds the error is
  the invalid-certificate-profile error (the version text when the version is not 3,
  the CA text otherwise); when both signature checks fail the error is the
  invalid-signature error, since the signature is checked before the profile.
\<close>

theorem ca_leaf_fails:
  assumes "AttStmt a ''alg'' = Some (GoInt64 alg)" "AttStmt a ''sig'' = Some (GoBytes sig)"
    "AttStmt a ''x5c'' = Some (GoSlice (GoBytes der # chain))"
    "x509_ParseCertificate L der = Inr cert"
    "IsCA cert"
  shows "snd (verifyPacked L a h) =
     Failure (WithDebug ErrInvalidAttestation
       (case x509_CheckSignature L cert (SignatureAlgorithm cert) (Raw (AuthData a) @ h) sig of
          None \<Rightarrow> if Version cert \<noteq> 3 then ''invalid version for certificate''
                  else ''CA is set for certificate''
        | Some _ \<Rightarrow>
           (case x509_CheckSignature L cert ECDSAWithSHA256 (Raw (AuthData a) @ h) sig of
              None \<Rightarrow> if Version cert \<noteq> 3 then ''invalid version for certificate''
                      else ''CA is set for certificate''
            | Some err \<Rightarrow> ''invalid signature for packed: '' @ err)))"
  using assms
  by (simp add: verifyPacked_def verifyBasic_def Let_def split: option.splits)

theorem ca_leaf_fails_witness:
  "snd (verifyPacked (example_lib (example_cert True []))
          (example_attestation (basic_stmt [1])) [0xAA]) =
     Failure (WithDebug ErrInvalidAttestation ''CA is set for certificate'')"
  using ca_leaf_fails
    [of "example_attestation (basic_stmt [1])" "- 7" "[1]" "[0x30]" "[]"
        "example_lib (example_cert True [])" "example_cert True []" "[0xAA]"]
  by (simp add: example_defs)

text \<open>
  The claim as stated fails: with a CA leaf and the signature \<open>[0]\<close>, which both checks
  reject, the error is the invalid-signature error and not the profile error.
\<close>

theorem ca_leaf_invalid_signature_counterexample:
  "IsCA (example_cert True []) \<and>
   snd (verifyPacked (example_lib (example_cert True []))
          (example_attestation (basic_stmt [0])) [0xAA]) =
     Failure (WithDebug ErrInvalidAttestation
       ''invalid signature for packed: x509: verification error'') \<and>
   snd (verifyPacked (example_lib (example_cert True []))
          (example_attestation (basic_stmt [0])) [0xAA]) \<noteq>
     Failure (WithDebug ErrInvalidAttestation ''CA is set for certificate'') \<and>
   snd (verifyPacked (example_lib (example_cert True []))
          (example_attestation (basic_stmt [0])) [0xAA]) \<noteq>
     Failure (WithDebug ErrInvalidAttestation ''invalid version for certificate'')"
  by (simp add: example_defs verify_defs WithDebug_eq_iff)

text \<open>
  C6, as amended. On the basic path, a leaf certificate whose device-model extension
  (the last one, should there be several) has a value that is not empty and decodes to
  a byte string different from the AAGUID of the authenticator data is never accepted:
  verification fails, with the error of the first check that fails. That is the
  invalid-signature error when both signature checks fail; otherwise the
  invalid-certificate-profile error when the version is not 3 or the leaf is a CA;
  otherwise the invalid-extension error when a device-model extension is critical;
  otherwise, so in particular with a valid signature on a conforming leaf, the
  aaguid-mismatch error.
\<close>

theorem aaguid_mismatch_rejected:
  assumes "AttStmt a ''alg'' = Some (GoInt64 alg)" "AttStmt a ''sig'' = Some (GoBytes sig)"
    "AttStmt a ''x5c'' = Some (GoSlice (GoBytes der # chain))"
    "x509_ParseCertificate L der = Inr cert"
    "filter (\<lambda>e. Id e = extensionIDFIDOGenCAAAGUID) (Extensions cert) \<noteq> []"
    "Value (last (filter (\<lambda>e. Id e = extensionIDFIDOGenCAAAGUID) (Extensions cert))) = v"
    "v \<noteq> []"
    "asn1_parse_bytes L v = Inr (aaguid, rest)"
    "aaguid \<noteq> AAGUID (AttestedCredentialData (AuthData a))"
  shows "snd (verifyPacked L a h) =
     Failure (WithDebug ErrInvalidAttestation
       (let after_signature =
              (if Version cert \<noteq> 3 then ''invalid version for certificate''
               else if IsCA cert then ''CA is set for certificate''
               else if \<exists>e \<in> set (Extensions cert).
                         Id e = extensionIDFIDOGenCAAAGUID \<and> Critical e
                 then ''extension id-fido-gen-ce-aaguid is present, but is marked as critical''
               else ''invalid AAGUID'')
        in case x509_CheckSignature L cert (SignatureAlgorithm cert) (Raw (AuthData a) @ h) sig of
             None \<Rightarrow> after_signature
           | Some _ \<Rightarrow>
               (case x509_CheckSignature L cert ECDSAWithSHA256 (Raw (AuthData a) @ h) sig of
                  None \<Rightarrow> after_signature
                | Some err \<Rightarrow> ''invalid signature for packed: '' @ err)))"
proof (cases "\<exists>e \<in> set (Extensions cert). Id e = extensionIDFIDOGenCAAAGUID \<and> Critical e")
  case True
  then have scan: "scanExtensions (Extensions cert) [] =
      Inl ''extension id-fido-gen-ce-aaguid is present, but is marked as critical''"
    by (rule scanExtensions_critical)
  show ?thesis
    using assms(1-4) True scan
    by (simp add: verifyPacked_def verifyBasic_def Let_def split: option.splits)
next
  case False
  then have "\<forall>e \<in> set (Extensions cert). Id e = extensionIDFIDOGenCAAAGUID \<longrightarrow> \<not> Critical e"
    by blast
  then have scan: "scanExtensions (Extensions cert) [] = Inr v"
    using assms(5,6) by (simp add: scanExtensions_Inr)
  have no_critical:
    "(\<exists>e \<in> set (Extensions cert). Id e = extensionIDFIDOGenCAAAGUID \<and> Critical e) = False"
    using False by simp
  show ?thesis
    using assms(1-4,7-9) scan
    by (simp add: no_critical verifyPacked_def verifyBasic_def Let_def asn1_Unmarshal_def
        split: option.splits)
qed

text \<open>
  At a conforming leaf whose device-model extension wraps sixteen bytes \<open>0xFF\<close>, with
  the signature \<open>[2]\<close> that the fallback check accepts.
\<close>

theorem aaguid_mismatch_rejected_witness:
  "snd (verifyPacked
          (example_lib (example_cert False [aaguid_extension False (4 # 16 # replicate 16 0xFF)]))
          (example_attestation (basic_stmt [2])) [0xAA]) =
     Failure (WithDebug ErrInvalidAttestation ''invalid AAGUID'')"
proof -
  let ?cert = "example_cert False [aaguid_extension False (4 # 16 # replicate 16 0xFF)]"
  let ?a = "example_attestation (basic_stmt [2])"
  have stmt: "AttStmt ?a ''alg'' = Some (GoInt64 (- 7))" "AttStmt ?a ''sig'' = Some (GoBytes [2])"
    "AttStmt ?a ''x5c'' = Some (GoSlice (GoBytes [0x30] # []))"
    by (simp_all add: example_attestation_def basic_stmt_def)
  have parse: "x509_ParseCertificate (example_lib ?cert) [0x30] = Inr ?cert"
    by (simp add: example_lib_def)
  have present: "filter (\<lambda>e. Id e = extensionIDFIDOGenCAAAGUID) (Extensions ?cert) \<noteq> []"
    and val: "Value (last (filter (\<lambda>e. Id e = extensionIDFIDOGenCAAAGUID) (Extensions ?cert))) =
      4 # 16 # replicate 16 0xFF"
    by (simp_all add: example_cert_def aaguid_extension_def)
  have nonempty: "4 # 16 # replicate 16 (0xFF :: byte) \<noteq> []"
    by simp
  have decode: "asn1_parse_bytes (example_lib ?cert) (4 # 16 # replicate 16 0xFF) =
      Inr (replicate 16 0xFF, [])"
    by code_simp
  have differs: "replicate 16 0xFF \<noteq> AAGUID (AttestedCredentialData (AuthData ?a))"
    by code_simp
  show ?thesis
    using aaguid_mismatch_rejected [OF stmt parse present val nonempty decode differs,
        where h = "[0xAA]"]
    by (simp add: example_lib_def example_cert_def example_attestation_def
        aaguid_extension_def)
qed

text \<open>
  The claim as stated fails: the same extension in a leaf with the CA flag set, under a
  signature that the first check accepts, gives the invalid-certificate-profile error
  and not the aaguid-mismatch error, since the profile is checked before the extension.
\<close>

theorem aaguid_mismatch_ca_leaf_counterexample:
  "der_octet_string (4 # 16 # replicate 16 0xFF) = Inr (replicate 16 0xFF, []) \<and>
   replicate 16 0xFF \<noteq> example_aaguid \<and>
   snd (verifyPacked
          (example_lib (example_cert True [aaguid_extension False (4 # 16 # replicate 16 0xFF)]))
          (example_attestation (basic_stmt [1])) [0xAA]) =
     Failure (WithDebug ErrInvalidAttestation ''CA is set for certificate'') \<and>
   snd (verifyPacked
          (example_lib (example_cert True [aaguid_extension False (4 # 16 # replicate 16 0xFF)]))
          (example_attestation (basic_stmt [1])) [0xAA]) \<noteq>
     Failure (WithDebug ErrInvalidAttestation ''invalid AAGUID'')"
  by code_simp

text \<open>
  A device-model extension whose value is not empty and does not decode is rejected
  with the invalid-aaguid-encoding error, under the same conditions on the signature,
  the profile and the critical flags.
\<close>

lemma undecodable_aaguid_rejected:
  assumes "AttStmt a ''alg'' = Some (GoInt64 alg)" "AttStmt a ''sig'' = Some (GoBytes sig)"
    "AttStmt a ''x5c'' = Some (GoSlice (GoBytes der # chain))"
    "x509_ParseCertificate L der = Inr cert"
    "x509_CheckSignature L cert (SignatureAlgorithm cert) (Raw (AuthData a) @ h) sig = None \<or>
     x509_CheckSignature L cert ECDSAWithSHA256 (Raw (AuthData a) @ h) sig = None"
    "Version cert = 3" "\<not> IsCA cert"
    "\<forall>e \<in> set (Extensions cert). Id e = extensionIDFIDOGenCAAAGUID \<longrightarrow> \<not> Critical e"
    "filter (\<lambda>e. Id e = extensionIDFIDOGenCAAAGUID) (Extensions cert) \<noteq> []"
    "Value (last (filter (\<lambda>e. Id e = extensionIDFIDOGenCAAAGUID) (Extensions cert))) = v"
    "v \<noteq> []"
    "asn1_parse_bytes L v = Inl err"
  shows "snd (verifyPacked L a h) =
           Failure (WithDebug ErrInvalidAttestation (''invalid AAGUID: '' @ err))"
proof -
  have scan: "scanExtensions (Extensions cert) [] = Inr v"
    using assms(8,9,10) by (simp add: scanExtensions_Inr)
  show ?thesis
    using assms(1-7,11,12) scan
    by (auto simp: verifyPacked_def verifyBasic_def Let_def asn1_Unmarshal_def
        split: option.splits)
qed

text \<open>
  C9. The claim is that a device-model extension whose value does not decode, the
  empty value included, is rejected with the invalid-aaguid-encoding error. The code
  tests \<^verbatim>\<open>len(aaguidValue) > 0\<close> (line 115) to learn whether the extension is present: a
  leaf that carries the extension with an empty value passes that test as if it had no
  such extension, nothing is decoded, and verification succeeds.
\<close>

theorem empty_aaguid_extension_accepted:
  "verifyPacked (example_lib (example_cert False [aaguid_extension False []]))
     (example_attestation (basic_stmt [1])) [0xAA] =
   ([Call_ParseCertificate [0x30],
     Call_CheckSignature (example_cert False [aaguid_extension False []]) SHA256WithRSA
       [0x49, 0x96, 0xAA] [1]],
    Success)"
  by (simp add: example_defs verify_defs)

subsection \<open>The self path\<close>

text \<open>
  C1. The claim is that an ES256 self attestation with a valid DER signature and the
  matching P-256 key succeeds, and that a zeroed signature gives the invalid-signature
  error. The code passes the slice \<^verbatim>\<open>signature\<close>, not a pointer to it, to
  \<^verbatim>\<open>asn1.Unmarshal\<close> (line 153), which returns an error for every recipient that is not a
  pointer. In the example library the bytes \<open>30 06 02 01 01 02 01 01\<close> decode to the
  pair \<open>(1, 1)\<close>, which its ECDSA verification accepts for every key and digest; the
  statement with that signature still fails, with the text for a signature that does
  not decode, and so does the statement with eight zero bytes.
\<close>

theorem self_attestation_ES256_rejected:
  "asn1_parse_bigints (example_lib c) [0x30, 0x06, 0x02, 0x01, 0x01, 0x02, 0x01, 0x01] =
     Inr ([1, 1], []) \<and>
   ecdsa_Verify (example_lib c) pub digest 1 1 \<and>
   verifyPacked (example_lib c)
     (example_attestation (self_stmt [0x30, 0x06, 0x02, 0x01, 0x01, 0x02, 0x01, 0x01]))
     clientDataHash =
   ([Call_Unmarshal [0x30, 0x06, 0x02, 0x01, 0x01, 0x02, 0x01, 0x01] Non_Pointer ''[]*big.Int''],
    Failure (WithCause
      (WithDebug ErrInvalidAttestation
         ''invalid ECDSA signature: asn1: Unmarshal recipient value is non-pointer []*big.Int'')
      ''asn1: Unmarshal recipient value is non-pointer []*big.Int'')) \<and>
   verifyPacked (example_lib c) (example_attestation (self_stmt [0, 0, 0, 0, 0, 0, 0, 0]))
     clientDataHash =
   ([Call_Unmarshal [0, 0, 0, 0, 0, 0, 0, 0] Non_Pointer ''[]*big.Int''],
    Failure (WithCause
      (WithDebug ErrInvalidAttestation
         ''invalid ECDSA signature: asn1: Unmarshal recipient value is non-pointer []*big.Int'')
      ''asn1: Unmarshal recipient value is non-pointer []*big.Int''))"
  by (simp add: example_lib_def example_attestation_def self_stmt_def verify_defs)

text \<open>
  C8. The claim is that the DER encoding of a pair \<open>(r, s)\<close> is decoded back to the pair
  and reaches the ECDSA verification. In the code the decode of line 153 returns an
  error for every byte string, the DER encodings among them: for every library, every
  P-256 key and every signature of an ES256 self attestation, the only call made is
  the one to \<^verbatim>\<open>asn1.Unmarshal\<close> (no hash, no ECDSA verification), and the result is the
  decode error.
\<close>

theorem self_signature_decode_always_fails:
  "verifyPacked L
     \<lparr>AuthData = \<lparr>Raw = raw, AttestedCredentialData =
        \<lparr>AAGUID = aaguid, COSEKey = ECDSA_PublicKey \<lparr>Curve = Some P256, X = x, Y = y\<rparr>\<rparr>\<rparr>,
      AttStmt = self_stmt sig\<rparr>
     clientDataHash =
   ([Call_Unmarshal sig Non_Pointer ''[]*big.Int''],
    Failure (WithCause
      (WithDebug ErrInvalidAttestation
         ''invalid ECDSA signature: asn1: Unmarshal recipient value is non-pointer []*big.Int'')
      ''asn1: Unmarshal recipient value is non-pointer []*big.Int''))"
  by (simp add: self_stmt_def verify_defs)

text \<open>
  Were the recipient a pointer, line 155 would still stop every signature that decodes:
  it compares \<^verbatim>\<open>rest\<close> with nil, and a successful \<^verbatim>\<open>asn1.Unmarshal\<close> returns a slice that is
  not nil (\<open>asn1_Unmarshal_rest\<close>). On no input does \<^verbatim>\<open>verifySelf\<close> return success.
\<close>

lemma verifySelf_never_succeeds:
  "snd (verifySelf L a clientDataHash alg sig) \<noteq> Success"
  by (simp add: verifySelf_def Let_def asn1_Unmarshal_def
      split: COSEKey_value.splits option.splits)

subsection \<open>The errors returned\<close>

lemma verifyBasic_Failure:
  "snd (verifyBasic L a h alg sig) = Failure e \<Longrightarrow> \<exists>d. e = WithDebug ErrInvalidAttestation d"
  by (auto simp: verifyBasic_def Let_def asn1_Unmarshal_def
      split: option.splits go_value.splits list.splits sum.splits if_splits prod.splits)

lemma verifySelf_Failure:
  "snd (verifySelf L a h alg sig) = Failure e \<Longrightarrow>
     \<exists>d. e = WithDebug ErrInvalidAttestation d \<or>
         (\<exists>c. e = WithCause (WithDebug ErrInvalidAttestation d) c)"
  by (auto simp: verifySelf_def Let_def asn1_Unmarshal_def
      split: COSEKey_value.splits option.splits if_splits)

text \<open>
  C10, as amended. Every error that \<^verbatim>\<open>verifyPacked\<close> returns, on every path, is
  \<^verbatim>\<open>protocol.ErrInvalidAttestation\<close> with a debug text attached by \<^verbatim>\<open>WithDebug\<close> or
  \<^verbatim>\<open>WithDebugf\<close>. One failure carries more than the debug text: the decode error of the
  self path (line 154) also has the error of \<^verbatim>\<open>asn1.Unmarshal\<close> attached as its cause by
  \<^verbatim>\<open>WithCause\<close>, and its debug text ends with the text of that cause. No other failure
  carries a cause: the kinds of failure differ in the debug text and in that one cause.
\<close>

theorem failures_are_ErrInvalidAttestation:
  assumes "snd (verifyPacked L a clientDataHash) = Failure e"
  shows "(\<exists>d. e = WithDebug ErrInvalidAttestation d) \<or>
         (\<exists>c. e = WithCause (WithDebug ErrInvalidAttestation (''invalid ECDSA signature: '' @ c)) c \<and>
              AttStmt a ''x5c'' = None \<and> AttStmt a ''ecdaaKeyId'' = None)"
proof (cases "AttStmt a ''x5c'' = None \<and> AttStmt a ''ecdaaKeyId'' = None")
  case True
  show ?thesis
    using assms True
    by (auto simp: verifyPacked_def verifySelf_def Let_def asn1_Unmarshal_def
        split: option.splits go_value.splits COSEKey_value.splits if_splits)
next
  case False
  show ?thesis
    using assms False
    by (auto simp: verifyPacked_def verifyECDAA_def
        split: option.splits go_value.splits if_splits dest: verifyBasic_Failure)
qed

text \<open>At a statement that has \<open>alg\<close> and no \<open>sig\<close>.\<close>

theorem failures_are_ErrInvalidAttestation_witness:
  "snd (verifyPacked (example_lib (example_cert False []))
          (example_attestation [''alg'' \<mapsto> GoInt64 (- 7)]) [0xAA]) =
     Failure (WithDebug ErrInvalidAttestation ''missing sig for packed'')"
  using failures_are_ErrInvalidAttestation
    [of "example_lib (example_cert False [])"
        "example_attestation [''alg'' \<mapsto> GoInt64 (- 7)]" "[0xAA]"
        "WithDebug ErrInvalidAttestation ''missing sig for packed''"]
  by (simp add: example_attestation_def verifyPacked_def)

text \<open>
  The claim as stated fails: the error returned for the self attestation with the
  signature \<open>[1]\<close> carries a cause, so it is not \<^verbatim>\<open>ErrInvalidAttestation\<close> with a debug
  text alone, whatever the text.
\<close>

theorem failure_with_cause_counterexample:
  "snd (verifyPacked (example_lib (example_cert False []))
          (example_attestation (self_stmt [1])) [0xAA]) =
     Failure (WithCause
       (WithDebug ErrInvalidAttestation
          ''invalid ECDSA signature: asn1: Unmarshal recipient value is non-pointer []*big.Int'')
       ''asn1: Unmarshal recipient value is non-pointer []*big.Int'') \<and>
   \<not> (\<exists>d. snd (verifyPacked (example_lib (example_cert False []))
                 (example_attestation (self_stmt [1])) [0xAA]) =
            Failure (WithDebug ErrInvalidAttestation d))"
  by (simp add: example_lib_def example_attestation_def self_stmt_def verify_defs
      WithDebug_def WithCause_def ErrInvalidAttestation_def)

end
